theory Spec2Isabelle
  imports Complex_Main
begin

section \<open>Package \<open>methods\<close> of learn-go: data model\<close>

text \<open>
  The package works on \<open>float64\<close> coordinates. The embedding keeps \<open>float64\<close> abstract:
  it is a type variable \<open>'a\<close> carrying the operations the code applies (\<open>*\<close>, \<open>+\<close>,
  unary \<open>-\<close>, \<open><\<close>, the constant \<open>0\<close>, numeric literals), and the library function
  \<open>math.Sqrt\<close> is a parameter \<open>math_Sqrt\<close> of every definition that calls it. The type
  classes used carry no axioms, so nothing proved below relies on an algebraic law that
  IEEE-754 arithmetic lacks: every theorem holds for any reading of the operations as
  functions of their operands. The reals with \<open>sqrt\<close> are one instance; the type
  \<open>float64\<close> defined further down, with the multiplication and division of IEEE-754
  binary64, is another. (Go allows a compiler to fuse \<open>x*y + z\<close> into one rounding
  step; here each operator is one function, read the same way wherever it occurs.)
\<close>

text \<open>\<open>type Vertex struct { X, Y float64 }\<close> (methods-introduction.go)\<close>

record 'a Vertex =
  X :: 'a
  Y :: 'a

text \<open>\<open>type Coordinate struct { X, Y float64 }\<close> (methods-interfaces.go)\<close>

record 'a Coordinate =
  X :: 'a
  Y :: 'a

text \<open>
  A Go pointer is \<open>nil\<close> or the address of a live variable. Go is memory safe, so each
  store below is total on addresses: a non-nil pointer always designates a struct.
\<close>

datatype ptr = nil | Ref nat

text \<open>
  The program state: the \<open>Vertex\<close> variables and the \<open>Coordinate\<close> variables that
  pointers can reach, and the bytes written to standard output so far.
\<close>

record 'a state =
  vertices :: "nat \<Rightarrow> 'a Vertex"
  coordinates :: "nat \<Rightarrow> 'a Coordinate"
  stdout :: string

text \<open>
  The only run-time panic this code can meet: dereferencing a nil pointer, or calling a
  method on a nil interface value (Go reports both as
  \<open>invalid memory address or nil pointer dereference\<close>).
\<close>

datatype fault = NilDereference

text \<open>Statement sequencing: a panic stops the run, nothing after it executes.\<close>

definition and_then :: "fault + 's \<Rightarrow> ('s \<Rightarrow> fault + 't) \<Rightarrow> fault + 't" where
  "and_then r k = (case r of Inl e \<Rightarrow> Inl e | Inr s \<Rightarrow> k s)"

text \<open>A block of statements, each a step from state to state that may panic.\<close>

fun run :: "('s \<Rightarrow> fault + 's) list \<Rightarrow> 's \<Rightarrow> fault + 's" where
  "run [] s = Inr s"
| "run (c # cs) s = and_then (c s) (run cs)"

section \<open>methods-introduction.go\<close>

text \<open>\<open>func (v Vertex) Absolute() float64\<close>: the receiver is passed by value.\<close>

definition Absolute :: "('a \<Rightarrow> 'a) \<Rightarrow> ('a::{times,plus}) Vertex \<Rightarrow> 'a" where
  "Absolute math_Sqrt v =
     math_Sqrt (Vertex.X v * Vertex.X v + Vertex.Y v * Vertex.Y v)"

text \<open>\<open>func AbsoluteFunction(v Vertex) float64\<close>\<close>

definition AbsoluteFunction :: "('a \<Rightarrow> 'a) \<Rightarrow> ('a::{times,plus}) Vertex \<Rightarrow> 'a" where
  "AbsoluteFunction math_Sqrt v =
     math_Sqrt (Vertex.X v * Vertex.X v + Vertex.Y v * Vertex.Y v)"

text \<open>\<open>func (f MyCustomFloat) Abs() float64\<close>\<close>

definition MyCustomFloat_Abs :: "('a::{ord,zero,uminus}) \<Rightarrow> 'a" where
  "MyCustomFloat_Abs f = (if f < 0 then - f else f)"

text \<open>
  \<open>func (v Vertex) ScaleWithValue(f float64)\<close>. The receiver \<open>v\<close> is the method's own
  copy. The two assignments update that copy in turn; the method returns nothing, so the
  value below is the copy as it stands when the method ends, which Go then drops.
\<close>

definition ScaleWithValue :: "('a::times) Vertex \<Rightarrow> 'a \<Rightarrow> 'a Vertex" where
  "ScaleWithValue v f =
     (let v = v\<lparr>Vertex.X := Vertex.X v * f\<rparr>;
          v = v\<lparr>Vertex.Y := Vertex.Y v * f\<rparr>
      in v)"

text \<open>\<open>func ScaleWithValueFunction(v Vertex, f float64)\<close>: the same on a parameter.\<close>

definition ScaleWithValueFunction :: "('a::times) Vertex \<Rightarrow> 'a \<Rightarrow> 'a Vertex" where
  "ScaleWithValueFunction v f =
     (let v = v\<lparr>Vertex.X := Vertex.X v * f\<rparr>;
          v = v\<lparr>Vertex.Y := Vertex.Y v * f\<rparr>
      in v)"

text \<open>
  \<open>func (v *Vertex) ScaleWithPointer(f float64)\<close>. Each assignment reads and writes the
  struct the receiver points to; with a nil receiver the first read \<open>v.X\<close> panics.
\<close>

definition ScaleWithPointer :: "ptr \<Rightarrow> ('a::times) \<Rightarrow> 'a state \<Rightarrow> fault + 'a state" where
  "ScaleWithPointer v f s =
     (case v of
        nil \<Rightarrow> Inl NilDereference
      | Ref a \<Rightarrow>
          (let s = s\<lparr>vertices := (vertices s)
                      (a := (vertices s a)\<lparr>Vertex.X := Vertex.X (vertices s a) * f\<rparr>)\<rparr>;
               s = s\<lparr>vertices := (vertices s)
                      (a := (vertices s a)\<lparr>Vertex.Y := Vertex.Y (vertices s a) * f\<rparr>)\<rparr>
           in Inr s))"

text \<open>\<open>func ScaleWithPointerFunction(v *Vertex, f float64)\<close>\<close>

definition ScaleWithPointerFunction :: "ptr \<Rightarrow> ('a::times) \<Rightarrow> 'a state \<Rightarrow> fault + 'a state" where
  "ScaleWithPointerFunction v f s =
     (case v of
        nil \<Rightarrow> Inl NilDereference
      | Ref a \<Rightarrow>
          (let s = s\<lparr>vertices := (vertices s)
                      (a := (vertices s a)\<lparr>Vertex.X := Vertex.X (vertices s a) * f\<rparr>)\<rparr>;
               s = s\<lparr>vertices := (vertices s)
                      (a := (vertices s a)\<lparr>Vertex.Y := Vertex.Y (vertices s a) * f\<rparr>)\<rparr>
           in Inr s))"

subsection \<open>Call forms on a variable\<close>

text \<open>
  The calls \<open>v.ScaleWithValue(f)\<close> and \<open>ScaleWithValueFunction(v, f)\<close> for a variable
  \<open>v\<close> stored at address \<open>a\<close> (lines 96, 103, 142, 152 of the demo). Go copies the
  variable into the callee's receiver or parameter. The pair returned is the caller's
  state after the call and the callee's copy at its end.
\<close>

definition call_ScaleWithValue :: "nat \<Rightarrow> ('a::times) \<Rightarrow> 'a state \<Rightarrow> 'a state \<times> 'a Vertex" where
  "call_ScaleWithValue a f s = (s, ScaleWithValue (vertices s a) f)"

definition call_ScaleWithValueFunction ::
    "nat \<Rightarrow> ('a::times) \<Rightarrow> 'a state \<Rightarrow> 'a state \<times> 'a Vertex" where
  "call_ScaleWithValueFunction a f s = (s, ScaleWithValueFunction (vertices s a) f)"

text \<open>
  \<open>v.ScaleWithPointer(f)\<close> on a variable at address \<open>a\<close> is \<open>(&v).ScaleWithPointer(f)\<close>
  (line 125 and the comment at lines 129-132); \<open>ScaleWithPointerFunction(&v, f)\<close> takes
  the address explicitly (lines 105, 115).
\<close>

definition call_ScaleWithPointer :: "nat \<Rightarrow> ('a::times) \<Rightarrow> 'a state \<Rightarrow> fault + 'a state" where
  "call_ScaleWithPointer a f s = ScaleWithPointer (Ref a) f s"

definition call_ScaleWithPointerFunction ::
    "nat \<Rightarrow> ('a::times) \<Rightarrow> 'a state \<Rightarrow> fault + 'a state" where
  "call_ScaleWithPointerFunction a f s = ScaleWithPointerFunction (Ref a) f s"

text \<open>
  With a pointer \<open>p\<close>, \<open>p.ScaleWithValue(f)\<close> is \<open>(*p).ScaleWithValue(f)\<close> (line 154 and
  the comment at line 156), and \<open>ScaleWithValueFunction(*p, f)\<close> dereferences explicitly
  (line 144): the struct pointed to is copied, and dereferencing nil panics.
\<close>

definition call_ScaleWithValue_through ::
    "ptr \<Rightarrow> ('a::times) \<Rightarrow> 'a state \<Rightarrow> fault + ('a state \<times> 'a Vertex)" where
  "call_ScaleWithValue_through p f s =
     (case p of nil \<Rightarrow> Inl NilDereference | Ref a \<Rightarrow> Inr (call_ScaleWithValue a f s))"

definition call_ScaleWithValueFunction_through ::
    "ptr \<Rightarrow> ('a::times) \<Rightarrow> 'a state \<Rightarrow> fault + ('a state \<times> 'a Vertex)" where
  "call_ScaleWithValueFunction_through p f s =
     (case p of nil \<Rightarrow> Inl NilDereference | Ref a \<Rightarrow> Inr (call_ScaleWithValueFunction a f s))"

section \<open>methods-interfaces.go\<close>

text \<open>\<open>fmt.Println\<close> of one string operand: the string and a newline go to standard output.\<close>

definition Println :: "string \<Rightarrow> 'a state \<Rightarrow> 'a state" where
  "Println str s = s\<lparr>stdout := stdout s @ str @ ''\<newline>''\<rparr>"

text \<open>
  \<open>func (v *Coordinate) Abs() float64\<close>. The result is the returned value and the state
  after the call.
\<close>

definition Coordinate_Abs ::
    "('a \<Rightarrow> 'a) \<Rightarrow> ptr \<Rightarrow> ('a::{times,plus,zero}) state \<Rightarrow> fault + ('a \<times> 'a state)" where
  "Coordinate_Abs math_Sqrt v s =
     (case v of
        nil \<Rightarrow> (let s = Println ''<nil>'' s in Inr (0, s))
      | Ref a \<Rightarrow>
          Inr (math_Sqrt (Coordinate.X (coordinates s a) * Coordinate.X (coordinates s a)
                          + Coordinate.Y (coordinates s a) * Coordinate.Y (coordinates s a)),
               s))"

text \<open>\<open>func (v *Coordinate) Scale(f float64)\<close>\<close>

definition Coordinate_Scale :: "ptr \<Rightarrow> ('a::times) \<Rightarrow> 'a state \<Rightarrow> fault + 'a state" where
  "Coordinate_Scale v f s =
     (case v of
        nil \<Rightarrow> Inl NilDereference
      | Ref a \<Rightarrow>
          (let s = s\<lparr>coordinates := (coordinates s)
                      (a := (coordinates s a)
                              \<lparr>Coordinate.X := Coordinate.X (coordinates s a) * f\<rparr>)\<rparr>;
               s = s\<lparr>coordinates := (coordinates s)
                      (a := (coordinates s a)
                              \<lparr>Coordinate.Y := Coordinate.Y (coordinates s a) * f\<rparr>)\<rparr>
           in Inr s))"

text \<open>\<open>func (f MyFloat) Abs() float64\<close>\<close>

definition MyFloat_Abs :: "('a::{ord,zero,uminus}) \<Rightarrow> 'a" where
  "MyFloat_Abs f = (if f < 0 then - f else f)"

subsection \<open>Interface values\<close>

text \<open>
  An interface value is nil or a pair of a concrete type and a value of that type (source
  comment, lines 55-58). Each constructor below is one concrete type with its value.
  \<open>Absoluteness\<close> has the method set \<open>Abs() float64\<close>; in this package \<open>MyFloat\<close> and
  \<open>*Coordinate\<close> implement it (\<open>Coordinate\<close> itself does not, line 84).
\<close>

datatype 'a Absoluteness =
    Absoluteness_nil
  | Absoluteness_MyFloat 'a
  | Absoluteness_PtrCoordinate ptr

text \<open>
  The empty interface \<open>interface{}\<close>, with the concrete types this package stores in it:
  directly (\<open>int\<close>, \<open>string\<close>) or as an operand of \<open>fmt.Println\<close> and \<open>fmt.Printf\<close>.
\<close>

datatype 'a any =
    any_nil
  | any_int int
  | any_string string
  | any_float64 'a
  | any_MyFloat 'a
  | any_PtrCoordinate ptr
  | any_Vertex "'a Vertex"

text \<open>Passing an \<open>Absoluteness\<close> where \<open>interface{}\<close> is expected keeps type and value.\<close>

fun to_any :: "'a Absoluteness \<Rightarrow> 'a any" where
  "to_any Absoluteness_nil = any_nil"
| "to_any (Absoluteness_MyFloat f) = any_MyFloat f"
| "to_any (Absoluteness_PtrCoordinate p) = any_PtrCoordinate p"

text \<open>
  Calling \<open>Abs\<close> on an \<open>Absoluteness\<close> value runs the method of the concrete type held.
  A nil interface value holds no type, so there is no method to run: a run-time panic
  (source comment, lines 96-98).
\<close>

definition Absoluteness_Abs ::
    "('a \<Rightarrow> 'a) \<Rightarrow> ('a::{times,plus,zero,ord,uminus}) Absoluteness \<Rightarrow> 'a state
       \<Rightarrow> fault + ('a \<times> 'a state)" where
  "Absoluteness_Abs math_Sqrt i s =
     (case i of
        Absoluteness_nil \<Rightarrow> Inl NilDereference
      | Absoluteness_MyFloat f \<Rightarrow> Inr (MyFloat_Abs f, s)
      | Absoluteness_PtrCoordinate p \<Rightarrow> Coordinate_Abs math_Sqrt p s)"

subsection \<open>Formatting\<close>

text \<open>Decimal digits of an integer, as \<open>%v\<close> prints an \<open>int\<close>.\<close>

fun show_nat :: "nat \<Rightarrow> string" where
  "show_nat n =
     (if n < 10 then [char_of (48 + n)]
      else show_nat (n div 10) @ [char_of (48 + n mod 10)])"

declare show_nat.simps [simp del]

definition show_int :: "int \<Rightarrow> string" where
  "show_int i = (if i < 0 then CHR ''-'' # show_nat (nat (- i)) else show_nat (nat i))"

text \<open>
  The verb \<open>%v\<close>. How a \<open>float64\<close> prints is the parameter \<open>format_float64\<close>; \<open>MyFloat\<close>
  has no \<open>String\<close> method and prints as its underlying \<open>float64\<close>. A struct prints as
  \<open>{X Y}\<close>, a pointer to a struct as \<open>&{X Y}\<close>, a nil pointer and a nil interface as
  \<open><nil>\<close>.
\<close>

fun fmt_v :: "('a \<Rightarrow> string) \<Rightarrow> 'a state \<Rightarrow> 'a any \<Rightarrow> string" where
  "fmt_v format_float64 s any_nil = ''<nil>''"
| "fmt_v format_float64 s (any_int n) = show_int n"
| "fmt_v format_float64 s (any_string str) = str"
| "fmt_v format_float64 s (any_float64 x) = format_float64 x"
| "fmt_v format_float64 s (any_MyFloat x) = format_float64 x"
| "fmt_v format_float64 s (any_PtrCoordinate nil) = ''<nil>''"
| "fmt_v format_float64 s (any_PtrCoordinate (Ref a)) =
     ''&{'' @ format_float64 (Coordinate.X (coordinates s a)) @ '' ''
           @ format_float64 (Coordinate.Y (coordinates s a)) @ ''}''"
| "fmt_v format_float64 s (any_Vertex v) =
     ''{'' @ format_float64 (Vertex.X v) @ '' '' @ format_float64 (Vertex.Y v) @ ''}''"

text \<open>The verb \<open>%T\<close>: the name of the concrete type.\<close>

fun fmt_T :: "'a any \<Rightarrow> string" where
  "fmt_T any_nil = ''<nil>''"
| "fmt_T (any_int n) = ''int''"
| "fmt_T (any_string str) = ''string''"
| "fmt_T (any_float64 x) = ''float64''"
| "fmt_T (any_MyFloat x) = ''methods.MyFloat''"
| "fmt_T (any_PtrCoordinate p) = ''*methods.Coordinate''"
| "fmt_T (any_Vertex v) = ''methods.Vertex''"

text \<open>
  \<open>fmt.Println\<close> with any operands: each is formatted with \<open>%v\<close>, spaces go between
  operands, a newline after. \<open>Println\<close> above is the case of one string.
\<close>

fun join_operands :: "string list \<Rightarrow> string" where
  "join_operands [] = []"
| "join_operands [x] = x"
| "join_operands (x # y # ys) = x @ '' '' @ join_operands (y # ys)"

definition Println_operands :: "('a \<Rightarrow> string) \<Rightarrow> 'a any list \<Rightarrow> 'a state \<Rightarrow> 'a state" where
  "Println_operands format_float64 xs s =
     s\<lparr>stdout := stdout s @ join_operands (map (fmt_v format_float64 s) xs) @ ''\<newline>''\<rparr>"

text \<open>\<open>func Describe(i Absoluteness)\<close>: \<open>fmt.Printf("(%v, %T)\n", i, i)\<close>\<close>

definition Describe :: "('a \<Rightarrow> string) \<Rightarrow> 'a Absoluteness \<Rightarrow> 'a state \<Rightarrow> 'a state" where
  "Describe format_float64 i s =
     s\<lparr>stdout := stdout s @ ''('' @ fmt_v format_float64 s (to_any i) @ '', ''
                 @ fmt_T (to_any i) @ '')\<newline>''\<rparr>"

text \<open>\<open>func DescribeGeneric(i interface{})\<close>: \<open>fmt.Printf("(%v, %T)\n", i, i)\<close>\<close>

definition DescribeGeneric :: "('a \<Rightarrow> string) \<Rightarrow> 'a any \<Rightarrow> 'a state \<Rightarrow> 'a state" where
  "DescribeGeneric format_float64 i s =
     s\<lparr>stdout := stdout s @ ''('' @ fmt_v format_float64 s i @ '', ''
                 @ fmt_T i @ '')\<newline>''\<rparr>"

subsection \<open>The demonstration routine\<close>

text \<open>
  \<open>func DemoImplementationMethodsAndInterface()\<close>, statement by statement. The local
  \<open>myCoordinate\<close> has its address taken (line 79), so it lives in the store, at an address
  \<open>addr\<close> picked by the run time. Operands of \<open>fmt.Println\<close> are evaluated before it
  prints. The lines the source leaves commented out are not part of the routine.
\<close>

definition DemoImplementationMethodsAndInterface ::
    "('a \<Rightarrow> 'a) \<Rightarrow> ('a \<Rightarrow> string) \<Rightarrow> nat
       \<Rightarrow> ('a::{times,plus,zero,ord,uminus,numeral}) state \<Rightarrow> fault + 'a state" where
  "DemoImplementationMethodsAndInterface math_Sqrt format_float64 addr s =
     (let a = (Absoluteness_nil :: 'a Absoluteness);
          myFloat = - math_Sqrt 2;
          s = s\<lparr>coordinates := (coordinates s)(addr := \<lparr>Coordinate.X = - 3, Y = - 4\<rparr>)\<rparr>;
          a = Absoluteness_MyFloat myFloat
      in and_then (Absoluteness_Abs math_Sqrt a s) (\<lambda>(r, s).
     (let s = Println_operands format_float64
                [any_string ''Abs method called on MyFloat:'', any_float64 r] s;
          s = Describe format_float64 a s;
          a = Absoluteness_PtrCoordinate (Ref addr)
      in and_then (Absoluteness_Abs math_Sqrt a s) (\<lambda>(r, s).
     (let s = Println_operands format_float64
                [any_string ''Abs method called on Coordinate:'', any_float64 r] s;
          s = Describe format_float64 a s;
          b = nil;
          s = Describe format_float64 (Absoluteness_PtrCoordinate b) s
      in and_then (Coordinate_Abs math_Sqrt b s) (\<lambda>(r, s).
     (let i = any_nil;
          s = DescribeGeneric format_float64 i s;
          i = any_int 42;
          s = DescribeGeneric format_float64 i s;
          i = any_string ''hello'';
          s = DescribeGeneric format_float64 i s
      in Inr s)))))))"

section \<open>The demonstration routine of methods-introduction.go and \<open>main\<close>\<close>

text \<open>
  \<open>func DemoImplementationMethodsIntroduction()\<close>, one list element per statement.
  The locals \<open>v1\<close>, \<open>v2\<close> and \<open>v3\<close> have their addresses taken, so they live in the
  store; the parameters \<open>v1\<close>, \<open>v2\<close>, \<open>v3\<close> are the addresses the run time gives them.
\<close>

definition DemoImplementationMethodsIntroduction ::
    "('a \<Rightarrow> 'a) \<Rightarrow> ('a \<Rightarrow> string) \<Rightarrow> nat \<Rightarrow> nat \<Rightarrow> nat
       \<Rightarrow> ('a::{times,plus,zero,ord,uminus,numeral}) state \<Rightarrow> fault + 'a state" where
  "DemoImplementationMethodsIntroduction math_Sqrt format_float64 v1 v2 v3 =
     (let myCustomFloat = - 10; p2 = Ref v2; p3 = Ref v3 in
      run [
        (\<lambda>s. Inr (s\<lparr>vertices := (vertices s)(v1 := \<lparr>Vertex.X = 3, Y = 4\<rparr>)\<rparr>)),
        (\<lambda>s. Inr (Println_operands format_float64
           [any_string ''Method call (v1):'',
            any_float64 (Absolute math_Sqrt (vertices s v1))] s)),
        (\<lambda>s. Inr (Println_operands format_float64
           [any_string ''Function call (v1):'',
            any_float64 (AbsoluteFunction math_Sqrt (vertices s v1))] s)),
        (\<lambda>s. Inr (Println_operands format_float64
           [any_string ''Abs method call (v1):'',
            any_float64 (MyCustomFloat_Abs myCustomFloat)] s)),
        (\<lambda>s. Inr (fst (call_ScaleWithValue v1 10 s))),
        (\<lambda>s. Inr (Println_operands format_float64
           [any_string ''Value receiver method call (v1):'', any_Vertex (vertices s v1),
            any_float64 (Absolute math_Sqrt (vertices s v1))] s)),
        call_ScaleWithPointer v1 10,
        (\<lambda>s. Inr (Println_operands format_float64
           [any_string ''Pointer receiver method call (v1):'', any_Vertex (vertices s v1),
            any_float64 (Absolute math_Sqrt (vertices s v1))] s)),
        (\<lambda>s. Inr (s\<lparr>vertices := (vertices s)(v1 := \<lparr>Vertex.X = 3, Y = 4\<rparr>)\<rparr>)),
        (\<lambda>s. Inr (fst (call_ScaleWithValueFunction v1 10 s))),
        (\<lambda>s. Inr (Println_operands format_float64
           [any_string ''Function call with value (v1):'', any_Vertex (vertices s v1),
            any_float64 (Absolute math_Sqrt (vertices s v1))] s)),
        call_ScaleWithPointerFunction v1 10,
        (\<lambda>s. Inr (Println_operands format_float64
           [any_string ''Function call with pointer (v1):'', any_Vertex (vertices s v1),
            any_float64 (Absolute math_Sqrt (vertices s v1))] s)),
        (\<lambda>s. Inr (s\<lparr>vertices := (vertices s)(v2 := \<lparr>Vertex.X = 3, Y = 4\<rparr>)\<rparr>)),
        call_ScaleWithPointerFunction v2 2,
        (\<lambda>s. Inr (Println_operands format_float64
           [any_string ''Function call with pointer (v2):'', any_Vertex (vertices s v2)] s)),
        ScaleWithPointerFunction p2 2,
        (\<lambda>s. Inr (Println_operands format_float64
           [any_string ''Function call with pointer (p2):'', any_Vertex (vertices s v2)] s)),
        call_ScaleWithPointer v2 2,
        (\<lambda>s. Inr (Println_operands format_float64
           [any_string ''Pointer receiver method call (v2):'', any_Vertex (vertices s v2)] s)),
        ScaleWithPointer p2 2,
        (\<lambda>s. Inr (Println_operands format_float64
           [any_string ''Pointer receiver method call (p2):'', any_Vertex (vertices s v2)] s)),
        (\<lambda>s. Inr (s\<lparr>vertices := (vertices s)(v3 := \<lparr>Vertex.X = 3, Y = 4\<rparr>)\<rparr>)),
        (\<lambda>s. Inr (fst (call_ScaleWithValueFunction v3 3 s))),
        (\<lambda>s. Inr (Println_operands format_float64
           [any_string ''Function call with pointer (v3):'', any_Vertex (vertices s v3)] s)),
        (\<lambda>s. and_then (call_ScaleWithValueFunction_through p3 3 s) (\<lambda>r. Inr (fst r))),
        (\<lambda>s. Inr (Println_operands format_float64
           [any_string ''Function call with pointer (p3):'', any_Vertex (vertices s v3)] s)),
        (\<lambda>s. Inr (fst (call_ScaleWithValue v3 3 s))),
        (\<lambda>s. Inr (Println_operands format_float64
           [any_string ''Value receiver method call (v3):'', any_Vertex (vertices s v3)] s)),
        (\<lambda>s. and_then (call_ScaleWithValue_through p3 3 s) (\<lambda>r. Inr (fst r))),
        (\<lambda>s. Inr (Println_operands format_float64
           [any_string ''Value receiver method call (p3):'', any_Vertex (vertices s v3)] s))
      ])"

text \<open>
  \<open>func main()\<close>: three headings and the two routines. \<open>v1\<close>, \<open>v2\<close>, \<open>v3\<close> and \<open>addr\<close>
  are the addresses of the routines' locals.
\<close>

definition main ::
    "('a \<Rightarrow> 'a) \<Rightarrow> ('a \<Rightarrow> string) \<Rightarrow> nat \<Rightarrow> nat \<Rightarrow> nat \<Rightarrow> nat
       \<Rightarrow> ('a::{times,plus,zero,ord,uminus,numeral}) state \<Rightarrow> fault + 'a state" where
  "main math_Sqrt format_float64 v1 v2 v3 addr =
     run [
       (\<lambda>s. Inr (Println ''Methods in Go:'' s)),
       (\<lambda>s. Inr (Println ''\<newline>Introduction-'' s)),
       DemoImplementationMethodsIntroduction math_Sqrt format_float64 v1 v2 v3,
       (\<lambda>s. Inr (Println ''\<newline>Interfaces-'' s)),
       DemoImplementationMethodsAndInterface math_Sqrt format_float64 addr
     ]"

text \<open>The state a program starts in: nothing printed, every variable at its zero value.\<close>

definition start :: "('a::zero) state" where
  "start = \<lparr>vertices = (\<lambda>a. \<lparr>Vertex.X = 0, Y = 0\<rparr>),
            coordinates = (\<lambda>a. \<lparr>Coordinate.X = 0, Y = 0\<rparr>),
            stdout = []\<rparr>"

section \<open>\<open>float64\<close>: multiplication and division of IEEE-754 binary64\<close>

text \<open>
  One claim is about the numbers themselves: what two multiplications in a row do to a
  \<open>float64\<close>. For it, \<open>float64\<close> is given here with the two operations the claim
  needs, as the Go specification fixes them (IEEE-754 binary64, round to nearest, ties
  to even). A value is a NaN, an infinity with its sign, or a finite number with its sign
  (\<open>True\<close> for minus) and its magnitude, so that \<open>Finite s 0\<close> are the two zeros. The
  magnitudes of actual \<open>float64\<close> values are those of \<open>float64_magnitude\<close>: an integer
  below \<open>2^53\<close> times a power of two between \<open>2^-1074\<close> and \<open>2^971\<close>.
\<close>

datatype float64 = NaN | Infinite bool | Finite bool real

definition float64_magnitude :: "real \<Rightarrow> bool" where
  "float64_magnitude m =
     (\<exists>(n::nat) (e::int). n < 2 ^ 53 \<and> - 1074 \<le> e \<and> e \<le> 971
        \<and> m = real n * 2 powr (real_of_int e))"

text \<open>
  Rounding a positive real \<open>m\<close> to the nearest magnitude. \<open>expo m\<close> is the exponent of
  its binade, \<open>2^e \<le> m < 2^(e+1)\<close>. Neighbouring magnitudes there are \<open>quantum m\<close>
  apart: \<open>2^(e-52)\<close>, and \<open>2^-1074\<close> throughout the subnormal range. \<open>rne\<close> rounds to
  the nearest integer, a tie to the even one.
\<close>

definition expo :: "real \<Rightarrow> int" where
  "expo m = \<lfloor>log 2 m\<rfloor>"

definition quantum :: "real \<Rightarrow> real" where
  "quantum m = 2 powr (real_of_int (max (expo m) (- 1022)) - 52)"

definition rne :: "real \<Rightarrow> int" where
  "rne x = (let n = \<lfloor>x\<rfloor>; d = x - of_int n
            in if d < 1 / 2 then n else if 1 / 2 < d then n + 1
               else if even n then n else n + 1)"

definition round_mag :: "real \<Rightarrow> real" where
  "round_mag m = (if m = 0 then 0 else of_int (rne (m / quantum m)) * quantum m)"

text \<open>
  An exact result of magnitude at least \<open>2^1024 - 2^970\<close>, half a step above the
  largest finite \<open>float64\<close>, rounds to infinity; below it, to the nearest magnitude.
\<close>

definition overflow_threshold :: real where
  "overflow_threshold = 2 ^ 1024 - 2 ^ 970"

definition fin_round :: "bool \<Rightarrow> real \<Rightarrow> float64" where
  "fin_round sg m = (if overflow_threshold \<le> m then Infinite sg else Finite sg (round_mag m))"

text \<open>
  The product: a NaN operand or infinity times zero gives NaN; otherwise the sign is
  minus when the operands' signs differ and the magnitude is the rounded exact product.
\<close>

fun fmul :: "float64 \<Rightarrow> float64 \<Rightarrow> float64" where
  "fmul NaN y = NaN"
| "fmul x NaN = NaN"
| "fmul (Infinite s) (Infinite t) = Infinite (s \<noteq> t)"
| "fmul (Infinite s) (Finite t n) = (if n = 0 then NaN else Infinite (s \<noteq> t))"
| "fmul (Finite s m) (Infinite t) = (if m = 0 then NaN else Infinite (s \<noteq> t))"
| "fmul (Finite s m) (Finite t n) = fin_round (s \<noteq> t) (m * n)"

text \<open>
  The quotient. Go does not panic on a \<open>float64\<close> division by zero: a nonzero number
  over zero is an infinity, zero over zero and infinity over infinity are NaN.
\<close>

fun fdiv :: "float64 \<Rightarrow> float64 \<Rightarrow> float64" where
  "fdiv NaN y = NaN"
| "fdiv x NaN = NaN"
| "fdiv (Infinite s) (Infinite t) = NaN"
| "fdiv (Infinite s) (Finite t n) = Infinite (s \<noteq> t)"
| "fdiv (Finite s m) (Infinite t) = Finite (s \<noteq> t) 0"
| "fdiv (Finite s m) (Finite t n) =
     (if n = 0 then (if m = 0 then NaN else Infinite (s \<noteq> t))
      else fin_round (s \<noteq> t) (m / n))"

text \<open>Negation flips the sign. Comparison with \<open><\<close>: false when an operand is NaN.\<close>

fun fneg :: "float64 \<Rightarrow> float64" where
  "fneg NaN = NaN"
| "fneg (Infinite s) = Infinite (\<not> s)"
| "fneg (Finite s m) = Finite (\<not> s) m"

fun is_finite :: "float64 \<Rightarrow> bool" where
  "is_finite (Finite s m) = True"
| "is_finite x = False"

fun valof :: "float64 \<Rightarrow> real" where
  "valof (Finite s m) = (if s then - m else m)"
| "valof x = 0"

fun flt :: "float64 \<Rightarrow> float64 \<Rightarrow> bool" where
  "flt NaN y = False"
| "flt x NaN = False"
| "flt (Infinite s) (Infinite t) = (s \<and> \<not> t)"
| "flt (Infinite s) (Finite t n) = s"
| "flt (Finite s m) (Infinite t) = (\<not> t)"
| "flt (Finite s m) (Finite t n) = (valof (Finite s m) < valof (Finite t n))"

fun fle :: "float64 \<Rightarrow> float64 \<Rightarrow> bool" where
  "fle NaN y = False"
| "fle x NaN = False"
| "fle (Infinite s) (Infinite t) = (s \<or> \<not> t)"
| "fle (Infinite s) (Finite t n) = s"
| "fle (Finite s m) (Infinite t) = (\<not> t)"
| "fle (Finite s m) (Finite t n) = (valof (Finite s m) \<le> valof (Finite t n))"

text \<open>
  With these, \<open>float64\<close> is one reading of the operations the package's code is written
  with: \<open>0\<close> and \<open>1\<close> are the constants converted to \<open>float64\<close>, \<open>x * y\<close>, \<open>x / y\<close>,
  \<open>- x\<close> and \<open>x < y\<close> the Go operators.
\<close>

instantiation float64 :: "{zero, one, times, inverse, uminus, ord}"
begin

definition zero_float64 :: float64 where
  "zero_float64 = Finite False 0"

definition one_float64 :: float64 where
  "one_float64 = Finite False 1"

definition times_float64 :: "float64 \<Rightarrow> float64 \<Rightarrow> float64" where
  "times_float64 = fmul"

definition divide_float64 :: "float64 \<Rightarrow> float64 \<Rightarrow> float64" where
  "divide_float64 = fdiv"

definition inverse_float64 :: "float64 \<Rightarrow> float64" where
  "inverse_float64 x = fdiv (Finite False 1) x"

definition uminus_float64 :: "float64 \<Rightarrow> float64" where
  "uminus_float64 = fneg"

definition less_float64 :: "float64 \<Rightarrow> float64 \<Rightarrow> bool" where
  "less_float64 = flt"

definition less_eq_float64 :: "float64 \<Rightarrow> float64 \<Rightarrow> bool" where
  "less_eq_float64 = fle"

instance ..

end

text \<open>Go's \<open>k != 0\<close> is false exactly for the two zeros.\<close>

fun is_zero :: "float64 \<Rightarrow> bool" where
  "is_zero (Finite s m) = (m = 0)"
| "is_zero x = False"

subsection \<open>Scaling there and back\<close>

text \<open>
  The exact results that round without overflow and without loss of precision to
  underflow: magnitudes from \<open>2^-1022\<close>, the smallest normal number, up to the overflow
  threshold.
\<close>

definition normal_range :: "real \<Rightarrow> bool" where
  "normal_range m = (1 / 2 ^ 1022 \<le> m \<and> m < overflow_threshold)"

text \<open>
  \<open>v.ScaleWithPointer(k)\<close> followed by \<open>v.ScaleWithPointer(1/k)\<close> for a variable \<open>v\<close>
  at address \<open>a\<close>, the quotient \<open>1/k\<close> computed in \<open>float64\<close>.
\<close>

definition scale_round_trip :: "nat \<Rightarrow> float64 \<Rightarrow> float64 state \<Rightarrow> fault + float64 state" where
  "scale_round_trip a k s =
     and_then (ScaleWithPointer (Ref a) k s) (ScaleWithPointer (Ref a) (1 / k))"

text \<open>
  A coordinate is restored within the relative tolerance \<open>tol\<close> when it was finite, is
  finite again, and differs from the original by at most \<open>tol\<close> times its magnitude.
\<close>

definition restored_within :: "real \<Rightarrow> float64 \<Rightarrow> float64 \<Rightarrow> bool" where
  "restored_within tol orig res =
     (is_finite orig \<and> is_finite res \<and> \<bar>valof res - valof orig\<bar> \<le> tol * \<bar>valof orig\<bar>)"

section \<open>Records written field by field\<close>

lemma Vertex_update_both:
  "(v :: 'a Vertex)\<lparr>Vertex.X := x, Vertex.Y := y\<rparr> = \<lparr>Vertex.X = x, Y = y\<rparr>"
  by (cases v) simp

lemma Coordinate_update_both:
  "(c :: 'a Coordinate)\<lparr>Coordinate.X := x, Coordinate.Y := y\<rparr> = \<lparr>Coordinate.X = x, Y = y\<rparr>"
  by (cases c) simp

section \<open>Formatting and the demonstration routine\<close>

lemma show_int_42: "show_int 42 = ''42''"
  by code_simp

text \<open>
  The demonstration routine never panics, and this is all it prints, whatever the
  \<open>float64\<close> operations and their printed form are. Over the reals with \<open>sqrt\<close> the
  three computed numbers are \<open>sqrt 2\<close>, \<open>- sqrt 2\<close> and \<open>5\<close>.
\<close>

lemma DemoImplementationMethodsAndInterface_output:
  "DemoImplementationMethodsAndInterface math_Sqrt format_float64 addr s =
     Inr (s\<lparr>coordinates := (coordinates s)(addr := \<lparr>Coordinate.X = - 3, Y = - 4\<rparr>),
            stdout := stdout s
              @ ''Abs method called on MyFloat: ''
              @ format_float64 (MyFloat_Abs (- math_Sqrt 2)) @ ''\<newline>''
              @ ''('' @ format_float64 (- math_Sqrt 2) @ '', methods.MyFloat)\<newline>''
              @ ''Abs method called on Coordinate: ''
              @ format_float64 (math_Sqrt (- 3 * - 3 + - 4 * - 4)) @ ''\<newline>''
              @ ''(&{'' @ format_float64 (- 3) @ '' '' @ format_float64 (- 4)
              @ ''}, *methods.Coordinate)\<newline>''
              @ ''(<nil>, *methods.Coordinate)\<newline>''
              @ ''<nil>\<newline>''
              @ ''(<nil>, <nil>)\<newline>''
              @ ''(42, int)\<newline>''
              @ ''(hello, string)\<newline>''\<rparr>)"
  by (simp add: DemoImplementationMethodsAndInterface_def Absoluteness_Abs_def and_then_def
        Coordinate_Abs_def Println_def Println_operands_def Describe_def DescribeGeneric_def
        show_int_42 Let_def)

text \<open>
  The other routine never panics either. Its output shows the two receiver kinds at work:
  after \<open>v1.ScaleWithValue(10)\<close> and after \<open>ScaleWithValueFunction(v1, 10)\<close> the
  variable still prints as \<open>{3 4}\<close>, after the pointer forms as \<open>{3*10 4*10}\<close>.
\<close>

lemma DemoImplementationMethodsIntroduction_output:
  "DemoImplementationMethodsIntroduction math_Sqrt format_float64 v1 v2 v3 s =
     Inr (s\<lparr>vertices := (vertices s)
              (v1 := \<lparr>Vertex.X = 3 * 10, Y = 4 * 10\<rparr>,
               v2 := \<lparr>Vertex.X = 3 * 2 * 2 * 2 * 2, Y = 4 * 2 * 2 * 2 * 2\<rparr>,
               v3 := \<lparr>Vertex.X = 3, Y = 4\<rparr>),
            stdout := stdout s
              @ ''Method call (v1): '' @ format_float64 (math_Sqrt (3 * 3 + 4 * 4)) @ ''\<newline>''
              @ ''Function call (v1): '' @ format_float64 (math_Sqrt (3 * 3 + 4 * 4)) @ ''\<newline>''
              @ ''Abs method call (v1): '' @ format_float64 (MyCustomFloat_Abs (- 10)) @ ''\<newline>''
              @ ''Value receiver method call (v1): '' @ ''{'' @ format_float64 (3) @ '' '' @ format_float64 (4) @ ''}'' @ '' '' @ format_float64 (math_Sqrt (3 * 3 + 4 * 4)) @ ''\<newline>''
              @ ''Pointer receiver method call (v1): '' @ ''{'' @ format_float64 (3 * 10) @ '' '' @ format_float64 (4 * 10) @ ''}'' @ '' '' @ format_float64 (math_Sqrt (3 * 10 * (3 * 10) + 4 * 10 * (4 * 10))) @ ''\<newline>''
              @ ''Function call with value (v1): '' @ ''{'' @ format_float64 (3) @ '' '' @ format_float64 (4) @ ''}'' @ '' '' @ format_float64 (math_Sqrt (3 * 3 + 4 * 4)) @ ''\<newline>''
              @ ''Function call with pointer (v1): '' @ ''{'' @ format_float64 (3 * 10) @ '' '' @ format_float64 (4 * 10) @ ''}'' @ '' '' @ format_float64 (math_Sqrt (3 * 10 * (3 * 10) + 4 * 10 * (4 * 10))) @ ''\<newline>''
              @ ''Function call with pointer (v2): '' @ ''{'' @ format_float64 (3 * 2) @ '' '' @ format_float64 (4 * 2) @ ''}'' @ ''\<newline>''
              @ ''Function call with pointer (p2): '' @ ''{'' @ format_float64 (3 * 2 * 2) @ '' '' @ format_float64 (4 * 2 * 2) @ ''}'' @ ''\<newline>''
              @ ''Pointer receiver method call (v2): '' @ ''{'' @ format_float64 (3 * 2 * 2 * 2) @ '' '' @ format_float64 (4 * 2 * 2 * 2) @ ''}'' @ ''\<newline>''
              @ ''Pointer receiver method call (p2): '' @ ''{'' @ format_float64 (3 * 2 * 2 * 2 * 2) @ '' '' @ format_float64 (4 * 2 * 2 * 2 * 2) @ ''}'' @ ''\<newline>''
              @ ''Function call with pointer (v3): '' @ ''{'' @ format_float64 (3) @ '' '' @ format_float64 (4) @ ''}'' @ ''\<newline>''
              @ ''Function call with pointer (p3): '' @ ''{'' @ format_float64 (3) @ '' '' @ format_float64 (4) @ ''}'' @ ''\<newline>''
              @ ''Value receiver method call (v3): '' @ ''{'' @ format_float64 (3) @ '' '' @ format_float64 (4) @ ''}'' @ ''\<newline>''
              @ ''Value receiver method call (p3): '' @ ''{'' @ format_float64 (3) @ '' '' @ format_float64 (4) @ ''}'' @ ''\<newline>''\<rparr>)"
  by (simp add: DemoImplementationMethodsIntroduction_def and_then_def Println_operands_def
        call_ScaleWithValue_def call_ScaleWithValueFunction_def call_ScaleWithPointer_def
        call_ScaleWithPointerFunction_def ScaleWithPointer_def ScaleWithPointerFunction_def
        call_ScaleWithValue_through_def call_ScaleWithValueFunction_through_def
        Absolute_def AbsoluteFunction_def Vertex_update_both Let_def)

text \<open>\<open>main\<close> returns normally: the process exits with status 0.\<close>

lemma main_returns:
  "\<exists>s'. main math_Sqrt format_float64 v1 v2 v3 addr s = Inr s'"
  by (simp add: main_def and_then_def DemoImplementationMethodsIntroduction_output
        DemoImplementationMethodsAndInterface_output)

lemma Println_one_string:
  "Println_operands format_float64 [any_string str] s = Println str s"
  by (simp add: Println_operands_def Println_def)

section \<open>The numbers of the demonstrations, over the reals\<close>

lemma Absolute_3_4: "Absolute sqrt \<lparr>Vertex.X = 3, Y = 4\<rparr> = (5 :: real)"
  by (simp add: Absolute_def)

lemma MyCustomFloat_Abs_minus_10: "MyCustomFloat_Abs (- 10 :: real) = 10"
  by (simp add: MyCustomFloat_Abs_def)

lemma ScaleWithValue_3_4_by_10:
  "ScaleWithValue \<lparr>Vertex.X = 3, Y = 4\<rparr> (10 :: real) = \<lparr>Vertex.X = 30, Y = 40\<rparr>"
  by (simp add: ScaleWithValue_def)

lemma Coordinate_Abs_minus_3_minus_4:
  "Coordinate_Abs sqrt (Ref 0)
     (start\<lparr>coordinates := (coordinates start)(0 := \<lparr>Coordinate.X = - 3, Y = - 4\<rparr>)\<rparr>)
   = Inr (5 :: real,
          start\<lparr>coordinates := (coordinates start)(0 := \<lparr>Coordinate.X = - 3, Y = - 4\<rparr>)\<rparr>)"
  by (simp add: Coordinate_Abs_def)

section \<open>Rounding error of \<open>float64\<close> products and quotients\<close>

text \<open>Rounding to the nearest integer is off by at most one half.\<close>

lemma rne_error: "\<bar>real_of_int (rne x) - x\<bar> \<le> 1 / 2"
  unfolding rne_def Let_def by (auto; linarith)

lemma round_mag_error:
  assumes "1 / 2 ^ 1022 \<le> m"
  shows "\<bar>round_mag m - m\<bar> \<le> m / 2 ^ 53"
proof -
  have "(0::real) < 1 / 2 ^ 1022" by simp
  then have mpos: "0 < m" using assms by linarith
  have "(2::real) powr (- 1022) = 1 / 2 ^ 1022"
    by (simp add: powr_minus_divide powr_realpow [symmetric])
  then have "- 1022 \<le> log 2 m" using assms mpos by (simp add: le_log_iff)
  then have e: "- 1022 \<le> expo m" unfolding expo_def by (simp add: le_floor_iff)
  define q where "q = quantum m"
  have q: "q = 2 powr (real_of_int (expo m) - 52)"
    using e unfolding q_def quantum_def by (simp add: max_def)
  have qpos: "0 < q" unfolding q by simp
  have "real_of_int (expo m) \<le> log 2 m" unfolding expo_def by simp
  then have "2 powr (real_of_int (expo m)) \<le> m"
    using mpos by (simp add: le_log_iff)
  moreover have "q = 2 powr (real_of_int (expo m)) / 2 ^ 52"
    unfolding q by (simp add: powr_diff)
  ultimately have qle: "q / 2 \<le> m / 2 ^ 53" by simp
  have "round_mag m - m = (real_of_int (rne (m / q)) - m / q) * q"
    using mpos qpos unfolding round_mag_def q_def by (simp add: algebra_simps)
  then have "\<bar>round_mag m - m\<bar> = \<bar>real_of_int (rne (m / q)) - m / q\<bar> * q"
    using qpos by (simp add: abs_mult)
  also have "\<dots> \<le> (1 / 2) * q"
    using rne_error [of "m / q"] qpos by (intro mult_right_mono) auto
  finally show ?thesis using qle by simp
qed

lemma round_mag_bounds:
  assumes "1 / 2 ^ 1022 \<le> m"
  shows "m * (1 - 1 / 2 ^ 53) \<le> round_mag m" and "round_mag m \<le> m * (1 + 1 / 2 ^ 53)"
proof -
  have "\<bar>round_mag m - m\<bar> \<le> m / 2 ^ 53" by (rule round_mag_error [OF assms])
  then have "round_mag m - m \<le> m / 2 ^ 53" and "- (m / 2 ^ 53) \<le> round_mag m - m"
    by linarith+
  then show "m * (1 - 1 / 2 ^ 53) \<le> round_mag m" and "round_mag m \<le> m * (1 + 1 / 2 ^ 53)"
    by (simp_all add: algebra_simps)
qed

lemma fin_round_normal:
  "normal_range m \<Longrightarrow> fin_round sg m = Finite sg (round_mag m)"
  by (simp add: fin_round_def normal_range_def)

lemma fin_round_zero: "fin_round sg 0 = Finite sg 0"
  by (simp add: fin_round_def round_mag_def overflow_threshold_def)

lemma coord_round_trip:
  assumes k: "0 < mk" "normal_range (1 / mk)"
      and c: "mc = 0 \<or> (1 / 2 ^ 1021 \<le> mc \<and> mc \<le> 2 ^ 1023 \<and> normal_range (mc * mk))"
  shows "\<exists>m'. fmul (fmul (Finite sc mc) (Finite sk mk)) (fdiv (Finite False 1) (Finite sk mk)) = Finite sc m'
              \<and> \<bar>m' - mc\<bar> \<le> mc / 2 ^ 51"
proof -
  define r where "r = round_mag (1 / mk)"
  have inv: "fdiv (Finite False 1) (Finite sk mk) = Finite sk r"
    using k by (simp add: fin_round_normal r_def)
  have r1: "(1 / mk) * (1 - 1 / 2 ^ 53) \<le> r" and r2: "r \<le> (1 / mk) * (1 + 1 / 2 ^ 53)"
    using round_mag_bounds [of "1 / mk"] k(2) by (simp_all add: normal_range_def r_def)
  show ?thesis
  proof (cases "mc = 0")
    case True
    have "fmul (Finite sc mc) (Finite sk mk) = Finite (sc \<noteq> sk) 0"
      using True by (simp add: fin_round_zero)
    moreover have "fmul (Finite (sc \<noteq> sk) 0) (Finite sk r) = Finite sc 0"
      by (cases sc; cases sk) (simp_all add: fin_round_zero)
    ultimately show ?thesis using True inv by simp
  next
    case False
    with c have lo: "1 / 2 ^ 1021 \<le> mc" and hi: "mc \<le> 2 ^ 1023"
      and n: "normal_range (mc * mk)" by auto
    have "(0::real) < 1 / 2 ^ 1021" by simp
    then have mcpos: "0 < mc" using lo by linarith
    define p where "p = round_mag (mc * mk)"
    have prod: "fmul (Finite sc mc) (Finite sk mk) = Finite (sc \<noteq> sk) p"
      using n by (simp add: fin_round_normal p_def)
    have p1: "(mc * mk) * (1 - 1 / 2 ^ 53) \<le> p" and p2: "p \<le> (mc * mk) * (1 + 1 / 2 ^ 53)"
      using round_mag_bounds [of "mc * mk"] n by (simp_all add: normal_range_def p_def)
    define u :: real where "u = 1 / 2 ^ 53"
    have u: "0 < u" "u < 1" by (simp_all add: u_def)
    note r1' = r1 [folded u_def] and r2' = r2 [folded u_def]
      and p1' = p1 [folded u_def] and p2' = p2 [folded u_def]
    have mkinv: "0 < 1 / mk" using k(1) by simp
    have rlo: "0 < (1 / mk) * (1 - u)" using mkinv u by simp
    have plo: "0 < (mc * mk) * (1 - u)" using mcpos k(1) u by simp
    have rpos: "0 < r" using rlo r1' by linarith
    have ppos: "0 < p" using plo p1' by linarith
    have "((mc * mk) * (1 - u)) * ((1 / mk) * (1 - u)) \<le> p * r"
      using p1' r1' plo rlo ppos by (intro mult_mono) simp_all
    moreover have "((mc * mk) * (1 - u)) * ((1 / mk) * (1 - u)) = mc * (1 - u) ^ 2"
      using k(1) by (simp add: power2_eq_square)
    ultimately have pr1: "mc * (1 - u) ^ 2 \<le> p * r" by simp
    have "p * r \<le> ((mc * mk) * (1 + u)) * ((1 / mk) * (1 + u))"
      using p2' r2' ppos rpos plo rlo u by (intro mult_mono) simp_all
    moreover have "((mc * mk) * (1 + u)) * ((1 / mk) * (1 + u)) = mc * (1 + u) ^ 2"
      using k(1) by (simp add: power2_eq_square)
    ultimately have pr2: "p * r \<le> mc * (1 + u) ^ 2" by simp
    have c1: "1 / 2 \<le> (1 - u) ^ 2" unfolding u_def by (simp add: power2_eq_square)
    have c2: "2 ^ 1023 * (1 + u) ^ 2 < overflow_threshold"
      unfolding u_def overflow_threshold_def by (simp add: power2_eq_square)
    have "1 / 2 ^ 1022 = (1 / 2 ^ 1021) * (1 / 2 :: real)" by simp
    also have "\<dots> \<le> mc * (1 - u) ^ 2"
      using lo c1 by (intro mult_mono) simp_all
    finally have nlo: "1 / 2 ^ 1022 \<le> p * r" using pr1 by linarith
    have "mc * (1 + u) ^ 2 \<le> 2 ^ 1023 * (1 + u) ^ 2"
      using hi by (intro mult_right_mono) simp_all
    then have nhi: "p * r < overflow_threshold" using pr2 c2 by linarith
    have nr: "normal_range (p * r)" using nlo nhi by (simp add: normal_range_def)
    define m' where "m' = round_mag (p * r)"
    have fin: "fmul (Finite (sc \<noteq> sk) p) (Finite sk r) = Finite sc m'"
      using nr by (cases sc; cases sk) (simp_all add: fin_round_normal m'_def)
    have m1: "(p * r) * (1 - u) \<le> m'" and m2: "m' \<le> (p * r) * (1 + u)"
      using round_mag_bounds [of "p * r"] nr by (simp_all add: normal_range_def m'_def u_def)
    have "(mc * (1 - u) ^ 2) * (1 - u) \<le> (p * r) * (1 - u)"
      using pr1 u by (intro mult_right_mono) simp_all
    then have lo3: "mc * (1 - u) ^ 3 \<le> m'" using m1 by (simp add: power3_eq_cube power2_eq_square mult.assoc)
    have "(p * r) * (1 + u) \<le> (mc * (1 + u) ^ 2) * (1 + u)"
      using pr2 u by (intro mult_right_mono) simp_all
    then have hi3: "m' \<le> mc * (1 + u) ^ 3" using m2 by (simp add: power3_eq_cube power2_eq_square mult.assoc)
    have c3: "(1 + u) ^ 3 \<le> 1 + 1 / 2 ^ 51" and c4: "1 - 1 / 2 ^ 51 \<le> (1 - u) ^ 3"
      unfolding u_def by (simp_all add: power3_eq_cube)
    have "mc * (1 + u) ^ 3 \<le> mc * (1 + 1 / 2 ^ 51)"
      using c3 mcpos by (intro mult_left_mono) simp_all
    moreover have "mc * (1 - 1 / 2 ^ 51) \<le> mc * (1 - u) ^ 3"
      using c4 mcpos by (intro mult_left_mono) simp_all
    ultimately have "m' \<le> mc * (1 + 1 / 2 ^ 51)" and "mc * (1 - 1 / 2 ^ 51) \<le> m'"
      using lo3 hi3 by linarith+
    then have "m' - mc \<le> mc / 2 ^ 51" and "- (mc / 2 ^ 51) \<le> m' - mc"
      by (simp_all add: algebra_simps)
    then have "\<bar>m' - mc\<bar> \<le> mc / 2 ^ 51" by linarith
    then show ?thesis using prod inv fin by auto
  qed
qed

lemma round_mag_pos: "1 / 2 ^ 1022 \<le> m \<Longrightarrow> 0 < round_mag m"
proof -
  assume a: "1 / 2 ^ 1022 \<le> m"
  moreover have "(0::real) < 1 / 2 ^ 1022" by simp
  ultimately have "0 < m" by linarith
  then have "0 < m * (1 - 1 / 2 ^ 53)" by simp
  then show ?thesis using round_mag_bounds(1) [OF a] by linarith
qed

lemma overflow_round_trip:
  assumes big: "overflow_threshold \<le> b * b"
      and inv: "1 / 2 ^ 1022 \<le> 1 / b" "1 / b < overflow_threshold" "b \<noteq> 0"
  shows "scale_round_trip a (Finite False b)
           (s\<lparr>vertices := (vertices s)
               (a := \<lparr>Vertex.X = Finite False b, Y = Finite False 0\<rparr>)\<rparr>)
         = Inr (s\<lparr>vertices := (vertices s)
               (a := \<lparr>Vertex.X = Infinite False, Y = Finite False 0\<rparr>)\<rparr>)"
proof -
  have "0 < round_mag (1 / b)" using inv(1) by (rule round_mag_pos)
  then have r: "round_mag (1 / b) \<noteq> 0" by simp
  have i: "1 / Finite False b = Finite False (round_mag (1 / b))"
    using inv by (simp add: divide_float64_def one_float64_def fin_round_def)
  have m1: "Finite False b * Finite False b = Infinite False"
    using big by (simp add: times_float64_def fin_round_def)
  have m2: "Infinite False * Finite False (round_mag (1 / b)) = Infinite False"
    using r by (simp add: times_float64_def)
  have z: "Finite False 0 * Finite False m = Finite False 0" for m
    by (simp add: times_float64_def fin_round_zero)
  show ?thesis
    by (simp add: scale_round_trip_def ScaleWithPointer_def and_then_def i m1 m2 z
        Vertex_update_both)
qed

subsection \<open>Rounding lands on a \<open>float64\<close>\<close>

text \<open>
  Below the overflow threshold the rounded magnitude is the magnitude of a \<open>float64\<close>:
  products and quotients of the model never leave the type.
\<close>

lemma rne_nonneg: "0 \<le> x \<Longrightarrow> 0 \<le> rne x"
  unfolding rne_def Let_def by (auto simp: zero_le_floor) 

lemma rne_le: "x \<le> real_of_int z \<Longrightarrow> rne x \<le> z"
proof -
  assume a: "x \<le> real_of_int z"
  have fl: "\<lfloor>x\<rfloor> \<le> z" using a by (simp add: floor_le_iff)
  show ?thesis
  proof (cases "\<lfloor>x\<rfloor> = z")
    case True
    then have "x - of_int \<lfloor>x\<rfloor> \<le> 0" using a by simp
    then show ?thesis using True unfolding rne_def Let_def by auto
  next
    case False
    then have "\<lfloor>x\<rfloor> + 1 \<le> z" using fl by linarith
    then show ?thesis unfolding rne_def Let_def by auto
  qed
qed

lemma rne_ge_half: "rne x = z \<Longrightarrow> real_of_int z - 1 / 2 \<le> x"
  using rne_error [of x] by linarith

lemma round_mag_is_float64:
  assumes "0 \<le> m" "m < overflow_threshold"
  shows "float64_magnitude (round_mag m)"
proof (cases "m = 0")
  case True
  then show ?thesis
    unfolding float64_magnitude_def round_mag_def
    by (intro exI [of _ 0]) simp
next
  case False
  then have mpos: "0 < m" using assms by simp
  define e where "e = max (expo m) (- 1022)"
  define q where "q = quantum m"
  have q: "q = 2 powr (real_of_int e - 52)" unfolding q_def quantum_def e_def by simp
  have qpos: "0 < q" unfolding q by simp
  define N where "N = rne (m / q)"
  have rm: "round_mag m = real_of_int N * q"
    using False unfolding round_mag_def N_def q_def by simp
  have N0: "0 \<le> N" unfolding N_def using mpos qpos by (intro rne_nonneg) simp
  have "log 2 m < real_of_int (expo m) + 1" unfolding expo_def by linarith
  then have "m < 2 powr (real_of_int (expo m) + 1)" using mpos by (simp add: log_less_iff)
  also have "\<dots> \<le> 2 powr (real_of_int e + 1)" unfolding e_def by simp
  finally have mlt: "m < 2 powr (real_of_int e + 1)" .
  have "2 powr (real_of_int e + 1) = 2 ^ 53 * q"
    unfolding q by (simp add: powr_diff powr_add)
  then have "m / q \<le> 2 ^ 53" using mlt qpos by (simp add: field_simps)
  then have "m / q \<le> real_of_int (2 ^ 53)" by simp
  then have N53: "N \<le> 2 ^ 53" unfolding N_def by (rule rne_le)
  have elo: "- 1022 \<le> e" unfolding e_def by simp
  have "m < 2 ^ 1024" using assms(2) unfolding overflow_threshold_def by simp
  moreover have "(2::real) powr 1024 = 2 ^ 1024" using powr_realpow [of 2 1024] by simp
  ultimately have "log 2 m < 1024" using mpos by (simp add: log_less_iff)
  then have "expo m \<le> 1023" unfolding expo_def by linarith
  then have ehi: "e \<le> 1023" unfolding e_def by simp
  show ?thesis
  proof (cases "N < 2 ^ 53")
    case True
    show ?thesis unfolding float64_magnitude_def
    proof (intro exI conjI)
      have "int (nat N) < int (2 ^ 53)" using True N0 by simp
      then show "nat N < 2 ^ 53" by (simp only: of_nat_less_iff)
      show "- 1074 \<le> e - 52" using elo by simp
      show "e - 52 \<le> 971" using ehi by simp
      show "round_mag m = real (nat N) * 2 powr real_of_int (e - 52)"
        using N0 by (simp add: rm q)
    qed
  next
    case False
    then have N: "N = 2 ^ 53" using N53 by simp
    have "e \<noteq> 1023"
    proof
      assume e: "e = 1023"
      have q971: "q = 2 ^ 971" unfolding q e using powr_realpow [of 2 971] by simp
      have "real_of_int N - 1 / 2 \<le> m / q" using N_def by (intro rne_ge_half) simp
      then have "(2 ^ 53 - 1 / 2) * q \<le> m" using qpos N by (simp add: field_simps)
      then have "overflow_threshold \<le> m"
        unfolding q971 overflow_threshold_def by simp
      then show False using assms(2) by simp
    qed
    then have e22: "e \<le> 1022" using ehi by simp
    show ?thesis unfolding float64_magnitude_def
    proof (intro exI conjI)
      show "(2 ^ 52 :: nat) < 2 ^ 53" by simp
      show "- 1074 \<le> e - 51" using elo by simp
      show "e - 51 \<le> 971" using e22 by simp
      have "(2::real) powr real_of_int (e - 51) = 2 * 2 powr (real_of_int e - 52)"
        by (simp add: powr_diff)
      then show "round_mag m = real (2 ^ 52) * 2 powr real_of_int (e - 51)"
        by (simp add: rm q N)
    qed
  qed
qed

subsection \<open>The model at work\<close>

lemma expo_eq:
  assumes "2 powr (real_of_int e) \<le> m" "m < 2 powr (real_of_int e + 1)"
  shows "expo m = e"
proof -
  have "(0::real) < 2 powr (real_of_int e)" by simp
  then have mpos: "0 < m" using assms(1) by linarith
  have "real_of_int e \<le> log 2 m" using assms(1) mpos by (simp add: le_log_iff)
  moreover have "log 2 m < real_of_int e + 1" using assms(2) mpos by (simp add: log_less_iff)
  ultimately show ?thesis unfolding expo_def by linarith
qed

lemma rne_of_int: "rne (real_of_int z) = z"
  by (simp add: rne_def)

lemma two_powr_int: "(2::real) powr (real_of_int (int k)) = 2 ^ k"
  by (simp add: powr_realpow)

text \<open>\<open>3 * -2 = -6\<close>, with no rounding.\<close>

lemma round_mag_6: "round_mag 6 = 6"
proof -
  have e: "expo 6 = 2"
    by (rule expo_eq) (simp_all add: powr_realpow [symmetric] two_powr_int)
  have q: "quantum 6 = 1 / 2 ^ 50"
    unfolding quantum_def e by (simp add: powr_minus_divide powr_realpow [symmetric])
  have "(6::real) / (1 / 2 ^ 50) = real_of_int (6 * 2 ^ 50)" by simp
  then have "rne (6 / quantum 6) = 6 * 2 ^ 50" unfolding q by (simp only: rne_of_int)
  then show ?thesis unfolding round_mag_def by (simp add: q)
qed

lemma float64_3_times_minus_2: "Finite False 3 * Finite True 2 = Finite True 6"
  by (simp add: times_float64_def fin_round_def overflow_threshold_def round_mag_6)

text \<open>The magnitudes used as examples below are magnitudes of \<open>float64\<close> values.\<close>

lemma float64_magnitude_small: "n < 2 ^ 53 \<Longrightarrow> float64_magnitude (real n)"
  unfolding float64_magnitude_def
  by (rule exI [of _ n], rule exI [of _ 0]) simp

lemma float64_magnitude_2_pow_1000: "float64_magnitude (2 ^ 1000)"
  unfolding float64_magnitude_def
proof (intro exI conjI)
  show "(2 ^ 52 :: nat) < 2 ^ 53" by simp
  show "- 1074 \<le> (948 :: int)" "(948 :: int) \<le> 971" by simp_all
  have "(2::real) powr (real_of_int 948) = 2 ^ 948"
    using powr_realpow [of 2 948] by simp
  then show "(2::real) ^ 1000 = real (2 ^ 52) * 2 powr (real_of_int 948)"
    by (simp add: power_add [symmetric])
qed

text \<open>
  For a finite \<open>float64\<close> above zero, such as the one \<open>math.Sqrt(2)\<close> returns, the
  negation is below zero and negating twice gives the number back.
\<close>

lemma float64_negation:
  "0 < m \<Longrightarrow> - Finite False m < 0 \<and> - (- Finite False m) = Finite False m"
  by (simp add: uminus_float64_def less_float64_def zero_float64_def)

section \<open>Magnitude\<close>

text \<open>
  Claim C1. For every coordinate pair \<open>(x, y)\<close> the magnitude is
  \<open>math.Sqrt(x*x + y*y)\<close>, and it is the same value whether the value-receiver method
  \<open>Vertex.Absolute\<close> computes it or the pointer-receiver method \<open>Coordinate.Abs\<close> does,
  called on a non-nil receiver (any address \<open>a\<close>) whose struct holds the same
  coordinates.
\<close>

theorem magnitude_value_and_pointer_receiver:
  "Absolute math_Sqrt \<lparr>Vertex.X = x, Y = y\<rparr> = math_Sqrt (x * x + y * y)
   \<and> Coordinate_Abs math_Sqrt (Ref a)
        (s\<lparr>coordinates := (coordinates s)(a := \<lparr>Coordinate.X = x, Y = y\<rparr>)\<rparr>)
      = Inr (Absolute math_Sqrt \<lparr>Vertex.X = x, Y = y\<rparr>,
             s\<lparr>coordinates := (coordinates s)(a := \<lparr>Coordinate.X = x, Y = y\<rparr>)\<rparr>)"
  by (simp add: Absolute_def Coordinate_Abs_def)

text \<open>
  Claim C2. Called on a nil \<open>*Coordinate\<close> receiver, \<open>Coordinate.Abs\<close> does not panic: it
  returns exactly zero, having printed the line \<open><nil>\<close> and changed nothing else.
\<close>

theorem Coordinate_Abs_nil_receiver:
  "Coordinate_Abs math_Sqrt nil s = Inr (0, s\<lparr>stdout := stdout s @ ''<nil>\<newline>''\<rparr>)"
  by (simp add: Coordinate_Abs_def Println_def)

text \<open>
  Claim C10. \<open>Coordinate.Abs\<close> has a pointer receiver, yet on a non-nil receiver it
  returns without writing through it: the \<open>X\<close> and \<open>Y\<close> fields of the struct pointed to
  are the same after the call as before (indeed the whole state is).
\<close>

theorem Coordinate_Abs_keeps_receiver:
  "\<exists>r s'. Coordinate_Abs math_Sqrt (Ref a) s = Inr (r, s')
      \<and> Coordinate.X (coordinates s' a) = Coordinate.X (coordinates s a)
      \<and> Coordinate.Y (coordinates s' a) = Coordinate.Y (coordinates s a)
      \<and> s' = s"
  by (simp add: Coordinate_Abs_def)

section \<open>Scaling\<close>

text \<open>
  Claim C3. For every variable \<open>v\<close> of type \<open>Vertex\<close> (at any address \<open>a\<close>, in any state)
  and every factor \<open>f\<close>, the calls \<open>v.ScaleWithValue(f)\<close> and
  \<open>ScaleWithValueFunction(v, f)\<close> leave the caller's state as it was, so the fields \<open>X\<close>
  and \<open>Y\<close> of \<open>v\<close> are unchanged; only the callee's copy was scaled.
\<close>

theorem ScaleWithValue_keeps_caller_variable:
  "fst (call_ScaleWithValue a f s) = s
   \<and> fst (call_ScaleWithValueFunction a f s) = s
   \<and> Vertex.X (vertices (fst (call_ScaleWithValue a f s)) a) = Vertex.X (vertices s a)
   \<and> Vertex.Y (vertices (fst (call_ScaleWithValue a f s)) a) = Vertex.Y (vertices s a)
   \<and> Vertex.X (vertices (fst (call_ScaleWithValueFunction a f s)) a) = Vertex.X (vertices s a)
   \<and> Vertex.Y (vertices (fst (call_ScaleWithValueFunction a f s)) a) = Vertex.Y (vertices s a)
   \<and> snd (call_ScaleWithValue a f s)
       = \<lparr>Vertex.X = Vertex.X (vertices s a) * f, Y = Vertex.Y (vertices s a) * f\<rparr>
   \<and> snd (call_ScaleWithValueFunction a f s)
       = \<lparr>Vertex.X = Vertex.X (vertices s a) * f, Y = Vertex.Y (vertices s a) * f\<rparr>"
  by (simp add: call_ScaleWithValue_def call_ScaleWithValueFunction_def
        ScaleWithValue_def ScaleWithValueFunction_def Vertex_update_both)

text \<open>
  Claim C4. Through a non-nil pointer (any address \<open>a\<close>) and for every factor \<open>f\<close>,
  \<open>Vertex.ScaleWithPointer\<close> and \<open>Coordinate.Scale\<close> return normally and update the struct
  pointed to in place: its \<open>X\<close> becomes the old \<open>X\<close> times \<open>f\<close>, its \<open>Y\<close> the old \<open>Y\<close>
  times \<open>f\<close>, and nothing else in the state changes.
\<close>

theorem pointer_receiver_scales_in_place:
  "ScaleWithPointer (Ref a) f s
     = Inr (s\<lparr>vertices := (vertices s)
               (a := \<lparr>Vertex.X = Vertex.X (vertices s a) * f,
                      Y = Vertex.Y (vertices s a) * f\<rparr>)\<rparr>)
   \<and> Coordinate_Scale (Ref a) f s
     = Inr (s\<lparr>coordinates := (coordinates s)
               (a := \<lparr>Coordinate.X = Coordinate.X (coordinates s a) * f,
                      Y = Coordinate.Y (coordinates s a) * f\<rparr>)\<rparr>)"
  by (simp add: ScaleWithPointer_def Coordinate_Scale_def
        Vertex_update_both Coordinate_update_both)

text \<open>
  Claim C9. Each method equals its plain-function counterpart: \<open>v.Absolute()\<close> and
  \<open>AbsoluteFunction(v)\<close> return the same value for every \<open>v\<close>, and for a variable \<open>v\<close>
  (at any address \<open>a\<close>) \<open>v.ScaleWithPointer(f)\<close> and \<open>ScaleWithPointerFunction(&v, f)\<close>
  end in the same state. The two pointer forms agree on every pointer, nil included.
\<close>

theorem method_equals_function:
  "Absolute math_Sqrt v = AbsoluteFunction math_Sqrt v
   \<and> call_ScaleWithPointer a f s = call_ScaleWithPointerFunction a f s
   \<and> ScaleWithPointer p f s = ScaleWithPointerFunction p f s"
  by (simp add: Absolute_def AbsoluteFunction_def call_ScaleWithPointer_def
        call_ScaleWithPointerFunction_def ScaleWithPointer_def ScaleWithPointerFunction_def)

text \<open>
  Claim C6, as amended. Let the factor \<open>k\<close> be finite and not zero, with \<open>1/|k|\<close> in
  the normal range of \<open>float64\<close>, and let each coordinate be zero, or have a magnitude
  between \<open>2^-1021\<close> and \<open>2^1023\<close> whose exact product with \<open>|k|\<close> is in the normal
  range. Then \<open>ScaleWithPointer\<close> with \<open>k\<close> followed by \<open>ScaleWithPointer\<close> with \<open>1/k\<close>
  returns normally, changes nothing but the two fields, and restores each coordinate
  within the relative tolerance \<open>2^-51\<close> (with its sign; a zero exactly).
\<close>

theorem scale_round_trip_within_tolerance:
  assumes k: "0 < mk" "normal_range (1 / mk)"
      and x: "mx = 0 \<or> (1 / 2 ^ 1021 \<le> mx \<and> mx \<le> 2 ^ 1023 \<and> normal_range (mx * mk))"
      and y: "my = 0 \<or> (1 / 2 ^ 1021 \<le> my \<and> my \<le> 2 ^ 1023 \<and> normal_range (my * mk))"
  shows "\<exists>x' y'.
           scale_round_trip a (Finite sk mk)
             (s\<lparr>vertices := (vertices s)
                 (a := \<lparr>Vertex.X = Finite sx mx, Y = Finite sy my\<rparr>)\<rparr>)
           = Inr (s\<lparr>vertices := (vertices s) (a := \<lparr>Vertex.X = x', Y = y'\<rparr>)\<rparr>)
           \<and> restored_within (1 / 2 ^ 51) (Finite sx mx) x'
           \<and> restored_within (1 / 2 ^ 51) (Finite sy my) y'"
proof -
  obtain x' where x': "fmul (fmul (Finite sx mx) (Finite sk mk)) (fdiv (Finite False 1) (Finite sk mk))
                         = Finite sx x'" "\<bar>x' - mx\<bar> \<le> mx / 2 ^ 51"
    using coord_round_trip [OF k x] by blast
  obtain y' where y': "fmul (fmul (Finite sy my) (Finite sk mk)) (fdiv (Finite False 1) (Finite sk mk))
                         = Finite sy y'" "\<bar>y' - my\<bar> \<le> my / 2 ^ 51"
    using coord_round_trip [OF k y] by blast
  have small: "(0::real) \<le> 1 / 2 ^ 1021" by simp
  have mx0: "0 \<le> mx" using x small by auto
  have my0: "0 \<le> my" using y small by auto
  have rx: "restored_within (1 / 2 ^ 51) (Finite sx mx) (Finite sx x')"
    using x'(2) mx0 by (cases sx) (simp_all add: restored_within_def abs_minus_commute)
  have ry: "restored_within (1 / 2 ^ 51) (Finite sy my) (Finite sy y')"
    using y'(2) my0 by (cases sy) (simp_all add: restored_within_def abs_minus_commute)
  have "scale_round_trip a (Finite sk mk)
             (s\<lparr>vertices := (vertices s)
                 (a := \<lparr>Vertex.X = Finite sx mx, Y = Finite sy my\<rparr>)\<rparr>)
        = Inr (s\<lparr>vertices := (vertices s)
                 (a := \<lparr>Vertex.X = Finite sx x', Y = Finite sy y'\<rparr>)\<rparr>)"
    using x'(1) y'(1)
    by (simp add: scale_round_trip_def ScaleWithPointer_def and_then_def Vertex_update_both
          times_float64_def divide_float64_def one_float64_def del: fmul.simps fdiv.simps)
  then show ?thesis using rx ry by blast
qed


theorem scale_round_trip_within_tolerance_witness:
  "0 < (2::real) \<and> normal_range (1 / 2)
   \<and> ((3::real) = 0 \<or> (1 / 2 ^ 1021 \<le> (3::real) \<and> (3::real) \<le> 2 ^ 1023 \<and> normal_range (3 * 2)))
   \<and> ((4::real) = 0 \<or> (1 / 2 ^ 1021 \<le> (4::real) \<and> (4::real) \<le> 2 ^ 1023 \<and> normal_range (4 * 2)))
   \<and> (\<exists>x' y'.
           scale_round_trip 0 (Finite False 2)
             (start\<lparr>vertices := (vertices start)
                 (0 := \<lparr>Vertex.X = Finite False 3, Y = Finite True 4\<rparr>)\<rparr>)
           = Inr (start\<lparr>vertices := (vertices start) (0 := \<lparr>Vertex.X = x', Y = y'\<rparr>)\<rparr>)
           \<and> restored_within (1 / 2 ^ 51) (Finite False 3) x'
           \<and> restored_within (1 / 2 ^ 51) (Finite True 4) y')"
proof -
  have k: "0 < (2::real)" "normal_range (1 / 2)"
    by (simp_all add: normal_range_def overflow_threshold_def)
  have x: "(3::real) = 0 \<or> (1 / 2 ^ 1021 \<le> (3::real) \<and> (3::real) \<le> 2 ^ 1023 \<and> normal_range (3 * 2))"
    by (simp add: normal_range_def overflow_threshold_def)
  have y: "(4::real) = 0 \<or> (1 / 2 ^ 1021 \<le> (4::real) \<and> (4::real) \<le> 2 ^ 1023 \<and> normal_range (4 * 2))"
    by (simp add: normal_range_def overflow_threshold_def)
  show ?thesis
    using k x y scale_round_trip_within_tolerance [OF k x y, of 0 False start False True] by blast
qed

text \<open>
  Claim C6 as stated, for every \<open>k \<noteq> 0\<close> and every coordinate pair, fails. With
  \<open>X = 2^1000\<close> and \<open>k = 2^1000\<close> the first product overflows to \<open>+Inf\<close>, and
  \<open>+Inf * (1/k)\<close> is \<open>+Inf\<close> again: \<open>X\<close> ends infinite, within no tolerance of
  \<open>2^1000\<close>.
\<close>

theorem scale_round_trip_overflow_counterexample:
  "\<not> is_zero (Finite False (2 ^ 1000))
   \<and> scale_round_trip 0 (Finite False (2 ^ 1000))
     (start\<lparr>vertices := (vertices start)
         (0 := \<lparr>Vertex.X = Finite False (2 ^ 1000), Y = Finite False 0\<rparr>)\<rparr>)
   = Inr (start\<lparr>vertices := (vertices start)
         (0 := \<lparr>Vertex.X = Infinite False, Y = Finite False 0\<rparr>)\<rparr>)
   \<and> \<not> restored_within 1 (Finite False (2 ^ 1000)) (Infinite False)"
proof (intro conjI)
  show "\<not> is_zero (Finite False (2 ^ 1000))" by simp
  show "scale_round_trip 0 (Finite False (2 ^ 1000))
     (start\<lparr>vertices := (vertices start)
         (0 := \<lparr>Vertex.X = Finite False (2 ^ 1000), Y = Finite False 0\<rparr>)\<rparr>)
   = Inr (start\<lparr>vertices := (vertices start)
         (0 := \<lparr>Vertex.X = Infinite False, Y = Finite False 0\<rparr>)\<rparr>)"
    by (rule overflow_round_trip) (simp_all add: overflow_threshold_def)
  show "\<not> restored_within 1 (Finite False (2 ^ 1000)) (Infinite False)"
    by (simp add: restored_within_def)
qed

section \<open>Interface dispatch\<close>

text \<open>
  Claim C5. Calling \<open>Abs\<close> on a nil \<open>Absoluteness\<close> value, one that holds neither a
  concrete type nor a value, is a run-time panic, and whatever statements follow the call
  (any continuation \<open>k\<close>) never run: the panic is the outcome of the whole run. The call on
  a non-nil \<open>Absoluteness\<close> value that holds the type \<open>*Coordinate\<close> with a nil pointer is
  legal: it runs \<open>Coordinate.Abs\<close>, which prints \<open><nil>\<close> and returns zero.
\<close>

theorem nil_interface_call_panics:
  "Absoluteness_Abs math_Sqrt Absoluteness_nil s = Inl NilDereference
   \<and> and_then (Absoluteness_Abs math_Sqrt Absoluteness_nil s) k = Inl NilDereference
   \<and> Absoluteness_Abs math_Sqrt (Absoluteness_PtrCoordinate nil) s
       = Inr (0, s\<lparr>stdout := stdout s @ ''<nil>\<newline>''\<rparr>)"
  by (simp add: Absoluteness_Abs_def and_then_def Coordinate_Abs_def Println_def)

text \<open>
  Claim C7. For an \<open>Absoluteness\<close> value holding a \<open>MyFloat\<close> \<open>f\<close>, \<open>Abs\<close> returns \<open>-f\<close>
  when \<open>f < 0\<close> and \<open>f\<close> otherwise, and changes nothing. For \<open>MyFloat(-math.Sqrt(2))\<close>
  (lines 71-75) the result is the very \<open>float64\<close> that \<open>math.Sqrt(2)\<close> returned, given
  two facts about that number: its negation is below zero, and negating twice gives it
  back. Over the reals \<open>MyFloat.Abs\<close> is the absolute value.
\<close>

theorem MyFloat_Abs_through_interface:
  "Absoluteness_Abs math_Sqrt (Absoluteness_MyFloat f) s = Inr (if f < 0 then - f else f, s)
   \<and> (- math_Sqrt 2 < 0 \<and> - (- math_Sqrt 2) = math_Sqrt 2 \<longrightarrow>
        Absoluteness_Abs math_Sqrt (Absoluteness_MyFloat (- math_Sqrt 2)) s
          = Inr (math_Sqrt 2, s))
   \<and> (\<forall>x :: real. MyFloat_Abs x = \<bar>x\<bar>)"
  by (simp add: Absoluteness_Abs_def MyFloat_Abs_def abs_if)

theorem MyFloat_Abs_through_interface_witness:
  "- sqrt 2 < 0 \<and> - (- sqrt 2) = sqrt 2
   \<and> Absoluteness_Abs sqrt (Absoluteness_MyFloat (- sqrt 2)) (start :: real state)
       = Inr (sqrt 2, start)"
  using MyFloat_Abs_through_interface [of sqrt "- sqrt 2" start] by simp

text \<open>
  Claim C8. \<open>DescribeGeneric\<close> applied to an empty-interface variable holding the integer
  \<open>42\<close> and then to the same variable holding the string \<open>hello\<close> prints the lines
  \<open>(42, int)\<close> and \<open>(hello, string)\<close>, one right after the other: each the value and the
  name of its concrete type. The demonstration routine returns normally and these two
  lines are the end of its output.
\<close>

theorem DescribeGeneric_int_then_string:
  "DescribeGeneric format_float64 (any_int 42) s
     = s\<lparr>stdout := stdout s @ ''(42, int)\<newline>''\<rparr>
   \<and> DescribeGeneric format_float64 (any_string ''hello'') s
     = s\<lparr>stdout := stdout s @ ''(hello, string)\<newline>''\<rparr>
   \<and> (let i = any_int 42;
           s = DescribeGeneric format_float64 i s;
           i = any_string ''hello'';
           s = DescribeGeneric format_float64 i s
       in s)
     = s\<lparr>stdout := stdout s @ ''(42, int)\<newline>(hello, string)\<newline>''\<rparr>
   \<and> (\<exists>s' before.
         DemoImplementationMethodsAndInterface math_Sqrt format_float64 addr s = Inr s'
         \<and> stdout s' = before @ ''(42, int)\<newline>(hello, string)\<newline>'')"
  by (simp add: DescribeGeneric_def show_int_42
        DemoImplementationMethodsAndInterface_output)

end
